theory Spec2Isabelle
  imports Main
begin

section \<open>Data model of \<open>src/server/api/trpc.ts\<close>\<close>

text \<open>
  The rows the two tables hold, as the optional \<open>quiz\<close> and \<open>entry\<close> members of
  \<open>CreateContextOptions\<close> spell them out. The members \<open>id\<close>, \<open>name\<close> and \<open>class\<close> clash with
  names Isabelle already uses, so every member carries the row's name as a prefix. The
  \<open>score\<close> is a TypeScript \<open>number\<close>; nothing in this file computes with it, it is only
  carried along, and it is kept as an integer.
\<close>

record Quiz =
  quiz_id :: string
  quiz_name :: string

record Entry =
  entry_id :: string
  entry_name :: string
  entry_quizID :: string
  entry_lastname :: string
  entry_class :: string
  entry_score :: int

text \<open>
  The two tables \<open>Quizes\<close> and \<open>Entries\<close> of \<open>../db/schema\<close>. A table is the list of its rows
  in the order a \<open>select\<close> returns them; the schema (and with it any uniqueness constraint
  on \<open>id\<close>) is not part of the sources, so a list does not rule duplicates out.
\<close>

record tables =
  Quizes :: "Quiz list"
  Entries :: "Entry list"

datatype table = QuizesT | EntriesT

text \<open>What \<open>cookies().get(name)\<close> hands back when the cookie exists: an object, not its value.\<close>

record RequestCookie =
  cookie_name :: string
  cookie_value :: string

text \<open>
  The effects a procedure can have on its surroundings, in the order they happen. They are
  recorded so that statements of the form ``the verifier is not called'' can be made.
\<close>

datatype event =
    CookiesGet string
  | CookiesDelete string
  | VerifyJWTCall string
  | Select table string

text \<open>
  Everything outside the context that a call reads or writes: the cookies of the request,
  the contents of the database behind each database handle, and the record of effects.
  The module-level \<open>db\<close> is a handle of type \<open>'db\<close>; the rows it stands for live here.
\<close>

record 'db world =
  cookieStore :: "string \<rightharpoonup> string"
  database :: "'db \<Rightarrow> tables"
  events :: "event list"

text \<open>The context of a request, as \<open>createInnerTRPCContext\<close> builds it.\<close>

record ('req, 'db) ctx =
  req :: 'req
  db :: 'db
  entry :: "Entry option"
  quiz :: "Quiz option"

record 'req CreateContextOptions =
  opts_req :: 'req
  opts_entry :: "Entry option"
  opts_quiz :: "Quiz option"

datatype TRPC_ERROR_CODE = UNAUTHORIZED | BAD_REQUEST

record TRPCError =
  code :: TRPC_ERROR_CODE
  message :: string

text \<open>
  A handler is what runs with a context: it ends in a \<open>TRPCError\<close> (the \<open>throw\<close>) or in a
  value, and leaves a world behind. A procedure takes the handler that comes after it (the
  \<open>next\<close> of a middleware, in the end the resolver) and gives the handler of the whole chain.
\<close>

type_synonym ('req, 'db, 'a) handler =
  "('req, 'db) ctx \<Rightarrow> 'db world \<Rightarrow> (TRPCError + 'a) \<times> 'db world"

type_synonym ('req, 'db, 'a) procedure =
  "('req, 'db, 'a) handler \<Rightarrow> ('req, 'db, 'a) handler"

section \<open>The context builder\<close>

definition createInnerTRPCContext ::
  "'db \<Rightarrow> 'req CreateContextOptions \<Rightarrow> ('req, 'db) ctx" where
  "createInnerTRPCContext the_db opts =
     \<lparr>req = opts_req opts, db = the_db, entry = opts_entry opts, quiz = opts_quiz opts\<rparr>"

text \<open>
  \<open>createTRPCContext\<close> passes an options object that has only \<open>req\<close>: the two optional
  members are \<open>undefined\<close>.
\<close>

definition createTRPCContext :: "'db \<Rightarrow> 'req \<Rightarrow> ('req, 'db) ctx" where
  "createTRPCContext the_db r =
     createInnerTRPCContext the_db \<lparr>opts_req = r, opts_entry = None, opts_quiz = None\<rparr>"

section \<open>Cookies, queries and the verifier\<close>

definition cookies_get :: "string \<Rightarrow> 'db world \<Rightarrow> RequestCookie option \<times> 'db world" where
  "cookies_get n w =
     (map_option (\<lambda>v. \<lparr>cookie_name = n, cookie_value = v\<rparr>) (cookieStore w n),
      w\<lparr>events := events w @ [CookiesGet n]\<rparr>)"

text \<open>
  \<open>cookies().delete(name)\<close> of \<open>next/headers\<close> does not take the cookie out of what
  \<open>cookies().get\<close> sees during the request: it overwrites the cookie with the empty value and
  an expiry date in the past, and sends that to the browser, which drops the cookie. So
  within the request the cookie stays present, with the value \<open>''''\<close>; what goes out to the
  browser (the empty value with the past expiry date) is the recorded effect
  \<open>CookiesDelete name\<close>. Only the value of a cookie is ever read by the procedures, so the
  store holds values only.
\<close>

definition cookies_delete :: "string \<Rightarrow> 'db world \<Rightarrow> 'db world" where
  "cookies_delete n w =
     w\<lparr>cookieStore := (cookieStore w)(n \<mapsto> ''''), events := events w @ [CookiesDelete n]\<rparr>"

text \<open>\<open>rows[0]\<close>: the first row, \<open>undefined\<close> on an empty result.\<close>

definition first_row :: "'a list \<Rightarrow> 'a option" where
  "first_row rows = (case rows of [] \<Rightarrow> None | r # _ \<Rightarrow> Some r)"

text \<open>\<open>db.select().from(Quizes).where(eq(Quizes.id, v))\<close> and the same on \<open>Entries\<close>.\<close>

definition select_Quizes :: "'db \<Rightarrow> string \<Rightarrow> 'db world \<Rightarrow> Quiz list \<times> 'db world" where
  "select_Quizes h v w =
     (filter (\<lambda>q. quiz_id q = v) (Quizes (database w h)),
      w\<lparr>events := events w @ [Select QuizesT v]\<rparr>)"

definition select_Entries :: "'db \<Rightarrow> string \<Rightarrow> 'db world \<Rightarrow> Entry list \<times> 'db world" where
  "select_Entries h v w =
     (filter (\<lambda>e. entry_id e = v) (Entries (database w h)),
      w\<lparr>events := events w @ [Select EntriesT v]\<rparr>)"

text \<open>
  \<open>VerifyJWT\<close> comes from \<open>~/jwt\<close>, which is not among the sources: the verifier is a
  parameter, a function from the credential to a truth value. Calling it is recorded.
\<close>

definition call_VerifyJWT :: "(string \<Rightarrow> bool) \<Rightarrow> string \<Rightarrow> 'db world \<Rightarrow> bool \<times> 'db world" where
  "call_VerifyJWT VerifyJWT v w = (VerifyJWT v, w\<lparr>events := events w @ [VerifyJWTCall v]\<rparr>)"

section \<open>Procedures\<close>

definition throw :: "TRPC_ERROR_CODE \<Rightarrow> string \<Rightarrow> 'db world \<Rightarrow> (TRPCError + 'a) \<times> 'db world" where
  "throw c m w = (Inl \<lparr>code = c, message = m\<rparr>, w)"

text \<open>\<open>t.procedure\<close> has no middleware; \<open>p.use(m)\<close> runs \<open>m\<close> after the middlewares of \<open>p\<close>.\<close>

definition publicProcedure :: "('req, 'db, 'a) procedure" where
  "publicProcedure next = next"

definition use ::
  "('req, 'db, 'a) procedure \<Rightarrow> ('req, 'db, 'a) procedure \<Rightarrow> ('req, 'db, 'a) procedure" where
  "use p m next = p (m next)"

text \<open>
  The middlewares are arrow functions without a name in the source (lines 121 to 127, 129
  to 138 and 140 to 149 of \<open>trpc.ts\<close>); each is named here after the procedure it is added
  to. A \<open>throw\<close> ends the call with the error; \<open>return opts.next()\<close> hands the context on.
\<close>

definition private_middleware :: "(string \<Rightarrow> bool) \<Rightarrow> ('req, 'db, 'a) procedure" where
  "private_middleware VerifyJWT next c w =
     (case cookies_get ''Authorization'' w of (cookie, w1) \<Rightarrow>
        (case cookie of
           None \<Rightarrow> throw UNAUTHORIZED ''Authorization missing'' w1
         | Some ck \<Rightarrow>
             (case call_VerifyJWT VerifyJWT (cookie_value ck) w1 of (ok, w2) \<Rightarrow>
                if ok then next c w2
                else throw UNAUTHORIZED ''Authorization incorrect''
                       (cookies_delete ''Authorization'' w2))))"

text \<open>
  \<open>opts.ctx.quiz = quiz\<close> writes the row into the context the rest of the chain gets;
  \<open>if(quiz)\<close> tests a row object or \<open>undefined\<close>, and \<open>if(!cookie)\<close> a cookie object or
  \<open>undefined\<close>: neither looks at a string.
\<close>

definition quizStart_middleware :: "('req, 'db, 'a) procedure" where
  "quizStart_middleware next c w =
     (case cookies_get ''quizID'' w of (cookie, w1) \<Rightarrow>
        (case cookie of
           None \<Rightarrow> throw BAD_REQUEST ''Quiz missing'' w1
         | Some ck \<Rightarrow>
             (case select_Quizes (db c) (cookie_value ck) w1 of (rows, w2) \<Rightarrow>
                (case first_row rows of
                   Some q \<Rightarrow> next (c\<lparr>quiz := Some q\<rparr>) w2
                 | None \<Rightarrow> throw BAD_REQUEST ''Quiz incorrect'' w2))))"

definition quiz_middleware :: "('req, 'db, 'a) procedure" where
  "quiz_middleware next c w =
     (case cookies_get ''entryID'' w of (cookie, w1) \<Rightarrow>
        (case cookie of
           None \<Rightarrow> throw BAD_REQUEST ''Entry missing'' w1
         | Some ck \<Rightarrow>
             (case select_Entries (db c) (cookie_value ck) w1 of (rows, w2) \<Rightarrow>
                (case first_row rows of
                   Some e \<Rightarrow> next (c\<lparr>entry := Some e\<rparr>) w2
                 | None \<Rightarrow> throw BAD_REQUEST ''Quiz incorrect'' w2))))"

definition privateProcedure :: "(string \<Rightarrow> bool) \<Rightarrow> ('req, 'db, 'a) procedure" where
  "privateProcedure VerifyJWT = use publicProcedure (private_middleware VerifyJWT)"

definition quizStartProcedure :: "('req, 'db, 'a) procedure" where
  "quizStartProcedure = use publicProcedure quizStart_middleware"

definition quizProcedure :: "('req, 'db, 'a) procedure" where
  "quizProcedure = use quizStartProcedure quiz_middleware"

section \<open>Sample data\<close>

text \<open>
  A small store to run the procedures on: the quiz \<open>Q1\<close> named Algebra, an entry \<open>E1\<close> of
  that quiz and an entry \<open>E2\<close> that names another quiz. There is no quiz \<open>Q7\<close>, no entry
  \<open>E9\<close> and no row whose \<open>id\<close> is the empty string. The database handle is the string
  \<open>sqlite.db\<close> (every handle stands for the same tables), the request is the unit value,
  and the cookies are the parameter. The routers that supply the resolvers are not among
  the sources; \<open>return_ctx\<close> is a resolver that hands back the context it was called with
  and touches nothing, so that what the chain passes on can be read off the result.
\<close>

definition quiz_Q1 :: Quiz where
  "quiz_Q1 = \<lparr>quiz_id = ''Q1'', quiz_name = ''Algebra''\<rparr>"

definition entry_E1 :: Entry where
  "entry_E1 = \<lparr>entry_id = ''E1'', entry_name = ''Ada'', entry_quizID = ''Q1'',
                entry_lastname = ''Lovelace'', entry_class = ''3a'', entry_score = 7\<rparr>"

definition entry_E2 :: Entry where
  "entry_E2 = \<lparr>entry_id = ''E2'', entry_name = ''Alan'', entry_quizID = ''Q2'',
                entry_lastname = ''Turing'', entry_class = ''3b'', entry_score = 0\<rparr>"

definition scenario_tables :: tables where
  "scenario_tables = \<lparr>Quizes = [quiz_Q1], Entries = [entry_E1, entry_E2]\<rparr>"

definition scenario_world :: "(string \<rightharpoonup> string) \<Rightarrow> string world" where
  "scenario_world jar = \<lparr>cookieStore = jar, database = (\<lambda>_. scenario_tables), events = []\<rparr>"

definition scenario_ctx :: "(unit, string) ctx" where
  "scenario_ctx = createTRPCContext ''sqlite.db'' ()"

definition return_ctx :: "('req, 'db, ('req, 'db) ctx) handler" where
  "return_ctx c w = (Inr c, w)"

section \<open>The first row of a selection\<close>

lemma first_row_filter_None:
  "first_row (filter P xs) = None \<longleftrightarrow> (\<forall>x\<in>set xs. \<not> P x)"
proof (cases "filter P xs")
  case Nil
  then show ?thesis by (simp add: first_row_def filter_empty_conv)
next
  case (Cons y ys)
  then have "y \<in> set (filter P xs)" by simp
  then have "y \<in> set xs \<and> P y" by simp
  with Cons show ?thesis by (auto simp: first_row_def)
qed

lemma first_row_filter_Some:
  assumes "first_row (filter P xs) = Some x"
  shows "x \<in> set xs \<and> P x"
proof -
  from assms obtain ys where "filter P xs = x # ys"
    by (auto simp: first_row_def split: list.splits)
  then have "x \<in> set (filter P xs)" by simp
  then show ?thesis by simp
qed

lemma first_row_filter_exists:
  assumes "x \<in> set xs" and "P x"
  shows "\<exists>y. first_row (filter P xs) = Some y \<and> y \<in> set xs \<and> P y"
proof (cases "first_row (filter P xs)")
  case None
  then have "\<forall>y\<in>set xs. \<not> P y" by (simp only: first_row_filter_None)
  with assms show ?thesis by blast
next
  case (Some y)
  with first_row_filter_Some [OF this] show ?thesis by blast
qed

lemma no_row_with_id:
  "v \<notin> f ` set xs \<Longrightarrow> first_row (filter (\<lambda>x. f x = v) xs) = None"
  by (simp only: first_row_filter_None) blast

lemma some_row_with_id:
  assumes "v \<in> f ` set xs"
  shows "\<exists>x. first_row (filter (\<lambda>x. f x = v) xs) = Some x \<and> x \<in> set xs \<and> f x = v"
proof -
  from assms obtain y where "y \<in> set xs" and "f y = v" by blast
  then show ?thesis by (rule first_row_filter_exists)
qed

section \<open>What each middleware does, case by case\<close>

lemma private_middleware_missing:
  "cookieStore w ''Authorization'' = None \<Longrightarrow>
   private_middleware VerifyJWT next c w =
     (Inl \<lparr>code = UNAUTHORIZED, message = ''Authorization missing''\<rparr>,
      w\<lparr>events := events w @ [CookiesGet ''Authorization'']\<rparr>)"
  by (simp add: private_middleware_def cookies_get_def throw_def)

lemma private_middleware_incorrect:
  "cookieStore w ''Authorization'' = Some v \<Longrightarrow> \<not> VerifyJWT v \<Longrightarrow>
   private_middleware VerifyJWT next c w =
     (Inl \<lparr>code = UNAUTHORIZED, message = ''Authorization incorrect''\<rparr>,
      w\<lparr>cookieStore := (cookieStore w)(''Authorization'' \<mapsto> ''''),
        events := events w @ [CookiesGet ''Authorization'', VerifyJWTCall v,
                              CookiesDelete ''Authorization'']\<rparr>)"
  by (simp add: private_middleware_def cookies_get_def call_VerifyJWT_def cookies_delete_def
      throw_def)

lemma private_middleware_verified:
  "cookieStore w ''Authorization'' = Some v \<Longrightarrow> VerifyJWT v \<Longrightarrow>
   private_middleware VerifyJWT next c w =
     next c (w\<lparr>events := events w @ [CookiesGet ''Authorization'', VerifyJWTCall v]\<rparr>)"
  by (simp add: private_middleware_def cookies_get_def call_VerifyJWT_def)

lemma quizStart_middleware_missing:
  "cookieStore w ''quizID'' = None \<Longrightarrow>
   quizStart_middleware next c w =
     (Inl \<lparr>code = BAD_REQUEST, message = ''Quiz missing''\<rparr>,
      w\<lparr>events := events w @ [CookiesGet ''quizID'']\<rparr>)"
  by (simp add: quizStart_middleware_def cookies_get_def throw_def)

lemma quizStart_middleware_incorrect:
  "cookieStore w ''quizID'' = Some v \<Longrightarrow>
   first_row (filter (\<lambda>q. quiz_id q = v) (Quizes (database w (db c)))) = None \<Longrightarrow>
   quizStart_middleware next c w =
     (Inl \<lparr>code = BAD_REQUEST, message = ''Quiz incorrect''\<rparr>,
      w\<lparr>events := events w @ [CookiesGet ''quizID'', Select QuizesT v]\<rparr>)"
  by (simp add: quizStart_middleware_def cookies_get_def select_Quizes_def throw_def)

lemma quizStart_middleware_found:
  "cookieStore w ''quizID'' = Some v \<Longrightarrow>
   first_row (filter (\<lambda>q. quiz_id q = v) (Quizes (database w (db c)))) = Some q \<Longrightarrow>
   quizStart_middleware next c w =
     next (c\<lparr>quiz := Some q\<rparr>)
       (w\<lparr>events := events w @ [CookiesGet ''quizID'', Select QuizesT v]\<rparr>)"
  by (simp add: quizStart_middleware_def cookies_get_def select_Quizes_def)

lemma quiz_middleware_missing:
  "cookieStore w ''entryID'' = None \<Longrightarrow>
   quiz_middleware next c w =
     (Inl \<lparr>code = BAD_REQUEST, message = ''Entry missing''\<rparr>,
      w\<lparr>events := events w @ [CookiesGet ''entryID'']\<rparr>)"
  by (simp add: quiz_middleware_def cookies_get_def throw_def)

lemma quiz_middleware_incorrect:
  "cookieStore w ''entryID'' = Some v \<Longrightarrow>
   first_row (filter (\<lambda>e. entry_id e = v) (Entries (database w (db c)))) = None \<Longrightarrow>
   quiz_middleware next c w =
     (Inl \<lparr>code = BAD_REQUEST, message = ''Quiz incorrect''\<rparr>,
      w\<lparr>events := events w @ [CookiesGet ''entryID'', Select EntriesT v]\<rparr>)"
  by (simp add: quiz_middleware_def cookies_get_def select_Entries_def throw_def)

lemma quiz_middleware_found:
  "cookieStore w ''entryID'' = Some v \<Longrightarrow>
   first_row (filter (\<lambda>e. entry_id e = v) (Entries (database w (db c)))) = Some e \<Longrightarrow>
   quiz_middleware next c w =
     next (c\<lparr>entry := Some e\<rparr>)
       (w\<lparr>events := events w @ [CookiesGet ''entryID'', Select EntriesT v]\<rparr>)"
  by (simp add: quiz_middleware_def cookies_get_def select_Entries_def)

lemma privateProcedure_eq: "privateProcedure VerifyJWT next = private_middleware VerifyJWT next"
  by (simp add: privateProcedure_def use_def publicProcedure_def)

lemma quizStartProcedure_eq: "quizStartProcedure next = quizStart_middleware next"
  by (simp add: quizStartProcedure_def use_def publicProcedure_def)

lemma quizProcedure_eq: "quizProcedure next = quizStart_middleware (quiz_middleware next)"
  by (simp add: quizProcedure_def use_def quizStartProcedure_eq)

lemma quizProcedure_quiz_found:
  assumes "cookieStore w ''quizID'' = Some qv"
    and "first_row (filter (\<lambda>x. quiz_id x = qv) (Quizes (database w (db c)))) = Some q"
  shows "quizProcedure next c w =
           quiz_middleware next (c\<lparr>quiz := Some q\<rparr>)
             (w\<lparr>events := events w @ [CookiesGet ''quizID'', Select QuizesT qv]\<rparr>)"
  unfolding quizProcedure_eq using assms by (rule quizStart_middleware_found)

lemma quizProcedure_entry_missing:
  assumes "cookieStore w ''quizID'' = Some qv"
    and "first_row (filter (\<lambda>x. quiz_id x = qv) (Quizes (database w (db c)))) = Some q"
    and "cookieStore w ''entryID'' = None"
  shows "quizProcedure next c w =
           (Inl \<lparr>code = BAD_REQUEST, message = ''Entry missing''\<rparr>,
            w\<lparr>events := events w @ [CookiesGet ''quizID'', Select QuizesT qv,
                                    CookiesGet ''entryID'']\<rparr>)"
  using assms(3)
  by (simp add: quizProcedure_quiz_found [OF assms(1,2)] quiz_middleware_missing)

lemma quizProcedure_entry_incorrect:
  assumes "cookieStore w ''quizID'' = Some qv"
    and "first_row (filter (\<lambda>x. quiz_id x = qv) (Quizes (database w (db c)))) = Some q"
    and "cookieStore w ''entryID'' = Some ev"
    and "first_row (filter (\<lambda>x. entry_id x = ev) (Entries (database w (db c)))) = None"
  shows "quizProcedure next c w =
           (Inl \<lparr>code = BAD_REQUEST, message = ''Quiz incorrect''\<rparr>,
            w\<lparr>events := events w @ [CookiesGet ''quizID'', Select QuizesT qv,
                                    CookiesGet ''entryID'', Select EntriesT ev]\<rparr>)"
  using assms(3,4)
  by (simp add: quizProcedure_quiz_found [OF assms(1,2)] quiz_middleware_incorrect)

lemma quizProcedure_entry_found:
  assumes "cookieStore w ''quizID'' = Some qv"
    and "first_row (filter (\<lambda>x. quiz_id x = qv) (Quizes (database w (db c)))) = Some q"
    and "cookieStore w ''entryID'' = Some ev"
    and "first_row (filter (\<lambda>x. entry_id x = ev) (Entries (database w (db c)))) = Some e"
  shows "quizProcedure next c w =
           next (c\<lparr>quiz := Some q, entry := Some e\<rparr>)
             (w\<lparr>events := events w @ [CookiesGet ''quizID'', Select QuizesT qv,
                                     CookiesGet ''entryID'', Select EntriesT ev]\<rparr>)"
  using assms(3,4)
  by (simp add: quizProcedure_quiz_found [OF assms(1,2)] quiz_middleware_found)






section \<open>Claims about the context builder\<close>

text \<open>
  C9. For every request, the context builder returns the context that holds the given
  request handle, the shared database handle, and no quiz and no entry. It is a function
  of its arguments alone: it takes no world and returns none, and it has no error result.
\<close>

theorem createTRPCContext_fresh:
  "createTRPCContext the_db r = \<lparr>req = r, db = the_db, entry = None, quiz = None\<rparr>"
  by (simp add: createTRPCContext_def createInnerTRPCContext_def)

section \<open>Claims about the private procedure\<close>

text \<open>
  C5. For every call through the private procedure in which the \<open>Authorization\<close> cookie is
  absent, the result is the error \<open>UNAUTHORIZED\<close> with the message ``Authorization missing''.
  The world the call leaves differs from the one it found only by the record of one read of
  that cookie: the verifier is not called (the result is the same for every verifier), and
  no cookie is deleted.
\<close>

theorem privateProcedure_no_cookie:
  assumes "cookieStore w ''Authorization'' = None"
  shows "privateProcedure VerifyJWT next c w =
           (Inl \<lparr>code = UNAUTHORIZED, message = ''Authorization missing''\<rparr>,
            w\<lparr>events := events w @ [CookiesGet ''Authorization'']\<rparr>)"
  using assms by (simp only: privateProcedure_eq private_middleware_missing)

theorem privateProcedure_no_cookie_witness:
  "cookieStore (scenario_world Map.empty) ''Authorization'' = None \<and>
   privateProcedure (\<lambda>t. True) return_ctx scenario_ctx (scenario_world Map.empty) =
     (Inl \<lparr>code = UNAUTHORIZED, message = ''Authorization missing''\<rparr>,
      \<lparr>cookieStore = Map.empty, database = (\<lambda>_. scenario_tables),
       events = [CookiesGet ''Authorization'']\<rparr>)"
proof -
  have h: "cookieStore (scenario_world Map.empty) ''Authorization'' = None"
    by (simp add: scenario_world_def)
  from privateProcedure_no_cookie [OF h, of "\<lambda>t. True" return_ctx scenario_ctx] h
  show ?thesis by (simp add: scenario_world_def)
qed

text \<open>
  C2. For every call through the private procedure whose \<open>Authorization\<close> cookie is present:
  if the verifier rejects its value, the procedure deletes the cookie (one call of
  \<open>cookies().delete\<close> on \<open>Authorization\<close>, recorded after the read and the call of the
  verifier; it leaves the cookie of the request overwritten with the empty value and no
  other cookie touched) and the call fails with \<open>UNAUTHORIZED\<close> and the message
  ``Authorization incorrect'', whatever comes after in the chain; if the verifier accepts it,
  the rest of the chain runs with the same context, and the cookies are the ones the call
  found (the effects are one read of the cookie and one call of the verifier: no cookie is
  written or deleted).
\<close>

theorem privateProcedure_credential_checked:
  "(cookieStore w ''Authorization'' = Some v \<and> \<not> VerifyJWT v \<longrightarrow>
      privateProcedure VerifyJWT next c w =
        (Inl \<lparr>code = UNAUTHORIZED, message = ''Authorization incorrect''\<rparr>,
         cookies_delete ''Authorization''
           (w\<lparr>events := events w @ [CookiesGet ''Authorization'', VerifyJWTCall v]\<rparr>)) \<and>
      privateProcedure VerifyJWT next c w =
        (Inl \<lparr>code = UNAUTHORIZED, message = ''Authorization incorrect''\<rparr>,
         w\<lparr>cookieStore := (cookieStore w)(''Authorization'' \<mapsto> ''''),
           events := events w @ [CookiesGet ''Authorization'', VerifyJWTCall v,
                                 CookiesDelete ''Authorization'']\<rparr>)) \<and>
   (cookieStore w ''Authorization'' = Some v \<and> VerifyJWT v \<longrightarrow>
      privateProcedure VerifyJWT next c w =
        next c (w\<lparr>events := events w @ [CookiesGet ''Authorization'', VerifyJWTCall v]\<rparr>))"
proof (intro conjI impI)
  assume a: "cookieStore w ''Authorization'' = Some v \<and> \<not> VerifyJWT v"
  then have r: "privateProcedure VerifyJWT next c w =
      (Inl \<lparr>code = UNAUTHORIZED, message = ''Authorization incorrect''\<rparr>,
       w\<lparr>cookieStore := (cookieStore w)(''Authorization'' \<mapsto> ''''),
         events := events w @ [CookiesGet ''Authorization'', VerifyJWTCall v,
                               CookiesDelete ''Authorization'']\<rparr>)"
    using private_middleware_incorrect [of w v VerifyJWT "next" c]
    unfolding privateProcedure_eq by blast
  then show "privateProcedure VerifyJWT next c w =
      (Inl \<lparr>code = UNAUTHORIZED, message = ''Authorization incorrect''\<rparr>,
       w\<lparr>cookieStore := (cookieStore w)(''Authorization'' \<mapsto> ''''),
         events := events w @ [CookiesGet ''Authorization'', VerifyJWTCall v,
                               CookiesDelete ''Authorization'']\<rparr>)" .
  from r show "privateProcedure VerifyJWT next c w =
      (Inl \<lparr>code = UNAUTHORIZED, message = ''Authorization incorrect''\<rparr>,
       cookies_delete ''Authorization''
         (w\<lparr>events := events w @ [CookiesGet ''Authorization'', VerifyJWTCall v]\<rparr>))"
    by (simp add: cookies_delete_def)
next
  assume "cookieStore w ''Authorization'' = Some v \<and> VerifyJWT v"
  then show "privateProcedure VerifyJWT next c w =
      next c (w\<lparr>events := events w @ [CookiesGet ''Authorization'', VerifyJWTCall v]\<rparr>)"
    using private_middleware_verified [of w v VerifyJWT "next" c]
    unfolding privateProcedure_eq by blast
qed

theorem privateProcedure_credential_checked_witness:
  "(let w = scenario_world [''Authorization'' \<mapsto> ''tok123'', ''quizID'' \<mapsto> ''Q1''];
        r = privateProcedure (\<lambda>t. t = ''good'') return_ctx scenario_ctx w
    in cookieStore w ''Authorization'' = Some ''tok123'' \<and> \<not> (''tok123'' = ''good'') \<and>
       fst r = Inl \<lparr>code = UNAUTHORIZED, message = ''Authorization incorrect''\<rparr> \<and>
       cookieStore (snd r) = [''Authorization'' \<mapsto> '''', ''quizID'' \<mapsto> ''Q1''] \<and>
       events (snd r) = [CookiesGet ''Authorization'', VerifyJWTCall ''tok123'',
                         CookiesDelete ''Authorization'']) \<and>
   (let w = scenario_world [''Authorization'' \<mapsto> ''good'', ''quizID'' \<mapsto> ''Q1''];
        r = privateProcedure (\<lambda>t. t = ''good'') return_ctx scenario_ctx w
    in cookieStore w ''Authorization'' = Some ''good'' \<and>
       fst r = Inr scenario_ctx \<and>
       cookieStore (snd r) = cookieStore w \<and>
       events (snd r) = [CookiesGet ''Authorization'', VerifyJWTCall ''good''])"
  using
    privateProcedure_credential_checked
      [of "scenario_world [''Authorization'' \<mapsto> ''tok123'', ''quizID'' \<mapsto> ''Q1'']" "''tok123''"
          "\<lambda>t. t = ''good''" return_ctx scenario_ctx]
    privateProcedure_credential_checked
      [of "scenario_world [''Authorization'' \<mapsto> ''good'', ''quizID'' \<mapsto> ''Q1'']" "''good''"
          "\<lambda>t. t = ''good''" return_ctx scenario_ctx]
  by (simp add: scenario_world_def return_ctx_def Let_def cookies_delete_def fun_upd_twist)

section \<open>Claims about the quizStart procedure\<close>

text \<open>
  C4. For every call through the quizStart procedure: without a \<open>quizID\<close> cookie it fails
  with \<open>BAD_REQUEST\<close> and ``Quiz missing''; with a cookie whose value is the \<open>id\<close> of no row of
  \<open>Quizes\<close> it fails with \<open>BAD_REQUEST\<close> and ``Quiz incorrect''; with a cookie whose value is
  the \<open>id\<close> of a row, a row with that \<open>id\<close> is put into the context and the rest of the chain
  runs on it. These are the only failures of the step: whenever the call ends in an error,
  either it is one of these two under exactly its condition, or it is an error of what
  runs after the step.
\<close>

theorem quizStartProcedure_outcomes:
  "(cookieStore w ''quizID'' = None \<longrightarrow>
      quizStartProcedure next c w =
        (Inl \<lparr>code = BAD_REQUEST, message = ''Quiz missing''\<rparr>,
         w\<lparr>events := events w @ [CookiesGet ''quizID'']\<rparr>)) \<and>
   (cookieStore w ''quizID'' = Some v \<and> v \<notin> quiz_id ` set (Quizes (database w (db c))) \<longrightarrow>
      quizStartProcedure next c w =
        (Inl \<lparr>code = BAD_REQUEST, message = ''Quiz incorrect''\<rparr>,
         w\<lparr>events := events w @ [CookiesGet ''quizID'', Select QuizesT v]\<rparr>)) \<and>
   (cookieStore w ''quizID'' = Some v \<and> v \<in> quiz_id ` set (Quizes (database w (db c))) \<longrightarrow>
      (\<exists>q. q \<in> set (Quizes (database w (db c))) \<and> quiz_id q = v \<and>
        quizStartProcedure next c w =
          next (c\<lparr>quiz := Some q\<rparr>)
            (w\<lparr>events := events w @ [CookiesGet ''quizID'', Select QuizesT v]\<rparr>))) \<and>
   (fst (quizStartProcedure next c w) = Inl err \<longrightarrow>
      cookieStore w ''quizID'' = None \<and>
        err = \<lparr>code = BAD_REQUEST, message = ''Quiz missing''\<rparr> \<or>
      (\<exists>u. cookieStore w ''quizID'' = Some u \<and>
        u \<notin> quiz_id ` set (Quizes (database w (db c))) \<and>
        err = \<lparr>code = BAD_REQUEST, message = ''Quiz incorrect''\<rparr>) \<or>
      (\<exists>q w'. fst (next (c\<lparr>quiz := Some q\<rparr>) w') = Inl err))"
proof (intro conjI impI)
  assume "cookieStore w ''quizID'' = None"
  then show "quizStartProcedure next c w =
      (Inl \<lparr>code = BAD_REQUEST, message = ''Quiz missing''\<rparr>,
       w\<lparr>events := events w @ [CookiesGet ''quizID'']\<rparr>)"
    by (simp only: quizStartProcedure_eq quizStart_middleware_missing)
next
  assume "cookieStore w ''quizID'' = Some v \<and> v \<notin> quiz_id ` set (Quizes (database w (db c)))"
  then have "cookieStore w ''quizID'' = Some v"
    and "first_row (filter (\<lambda>x. quiz_id x = v) (Quizes (database w (db c)))) = None"
    by (simp_all add: no_row_with_id)
  then show "quizStartProcedure next c w =
      (Inl \<lparr>code = BAD_REQUEST, message = ''Quiz incorrect''\<rparr>,
       w\<lparr>events := events w @ [CookiesGet ''quizID'', Select QuizesT v]\<rparr>)"
    unfolding quizStartProcedure_eq by (rule quizStart_middleware_incorrect)
next
  assume a: "cookieStore w ''quizID'' = Some v \<and> v \<in> quiz_id ` set (Quizes (database w (db c)))"
  then obtain q where
    q: "first_row (filter (\<lambda>x. quiz_id x = v) (Quizes (database w (db c)))) = Some q"
      "q \<in> set (Quizes (database w (db c)))" "quiz_id q = v"
    using some_row_with_id [of v quiz_id "Quizes (database w (db c))"] by blast
  from a q(1) have "quizStartProcedure next c w =
      next (c\<lparr>quiz := Some q\<rparr>)
        (w\<lparr>events := events w @ [CookiesGet ''quizID'', Select QuizesT v]\<rparr>)"
    by (simp only: quizStartProcedure_eq quizStart_middleware_found)
  with q(2,3) show "\<exists>q. q \<in> set (Quizes (database w (db c))) \<and> quiz_id q = v \<and>
      quizStartProcedure next c w =
        next (c\<lparr>quiz := Some q\<rparr>)
          (w\<lparr>events := events w @ [CookiesGet ''quizID'', Select QuizesT v]\<rparr>)"
    by blast
next
  assume e: "fst (quizStartProcedure next c w) = Inl err"
  show "cookieStore w ''quizID'' = None \<and>
        err = \<lparr>code = BAD_REQUEST, message = ''Quiz missing''\<rparr> \<or>
      (\<exists>u. cookieStore w ''quizID'' = Some u \<and>
        u \<notin> quiz_id ` set (Quizes (database w (db c))) \<and>
        err = \<lparr>code = BAD_REQUEST, message = ''Quiz incorrect''\<rparr>) \<or>
      (\<exists>q w'. fst (next (c\<lparr>quiz := Some q\<rparr>) w') = Inl err)"
  proof (cases "cookieStore w ''quizID''")
    case None
    with e show ?thesis
      by (simp add: quizStartProcedure_eq quizStart_middleware_missing)
  next
    case (Some u)
    show ?thesis
    proof (cases "u \<in> quiz_id ` set (Quizes (database w (db c)))")
      case False
      with Some e have "err = \<lparr>code = BAD_REQUEST, message = ''Quiz incorrect''\<rparr>"
        by (simp add: quizStartProcedure_eq quizStart_middleware_incorrect no_row_with_id)
      with Some False show ?thesis by blast
    next
      case True
      then obtain q where
        "first_row (filter (\<lambda>x. quiz_id x = u) (Quizes (database w (db c)))) = Some q"
        using some_row_with_id [of u quiz_id "Quizes (database w (db c))"] by blast
      with Some e have "fst (next (c\<lparr>quiz := Some q\<rparr>)
          (w\<lparr>events := events w @ [CookiesGet ''quizID'', Select QuizesT u]\<rparr>)) = Inl err"
        by (simp add: quizStartProcedure_eq quizStart_middleware_found)
      then show ?thesis by blast
    qed
  qed
qed

theorem quizStartProcedure_outcomes_witness:
  "(cookieStore (scenario_world Map.empty) ''quizID'' = None \<and>
    quizStartProcedure return_ctx scenario_ctx (scenario_world Map.empty) =
      (Inl \<lparr>code = BAD_REQUEST, message = ''Quiz missing''\<rparr>,
       (scenario_world Map.empty)\<lparr>events := [CookiesGet ''quizID'']\<rparr>)) \<and>
   (cookieStore (scenario_world [''quizID'' \<mapsto> ''Q7'']) ''quizID'' = Some ''Q7'' \<and>
    ''Q7'' \<notin> quiz_id ` set (Quizes (database (scenario_world [''quizID'' \<mapsto> ''Q7''])
                                     (db scenario_ctx))) \<and>
    quizStartProcedure return_ctx scenario_ctx (scenario_world [''quizID'' \<mapsto> ''Q7'']) =
      (Inl \<lparr>code = BAD_REQUEST, message = ''Quiz incorrect''\<rparr>,
       (scenario_world [''quizID'' \<mapsto> ''Q7''])
         \<lparr>events := [CookiesGet ''quizID'', Select QuizesT ''Q7'']\<rparr>)) \<and>
   (cookieStore (scenario_world [''quizID'' \<mapsto> ''Q1'']) ''quizID'' = Some ''Q1'' \<and>
    ''Q1'' \<in> quiz_id ` set (Quizes (database (scenario_world [''quizID'' \<mapsto> ''Q1''])
                                     (db scenario_ctx))) \<and>
    quizStartProcedure return_ctx scenario_ctx (scenario_world [''quizID'' \<mapsto> ''Q1'']) =
      (Inr (scenario_ctx\<lparr>quiz := Some \<lparr>quiz_id = ''Q1'', quiz_name = ''Algebra''\<rparr>\<rparr>),
       (scenario_world [''quizID'' \<mapsto> ''Q1''])
         \<lparr>events := [CookiesGet ''quizID'', Select QuizesT ''Q1'']\<rparr>)) \<and>
   (fst (quizStartProcedure return_ctx scenario_ctx (scenario_world Map.empty)) =
      Inl \<lparr>code = BAD_REQUEST, message = ''Quiz missing''\<rparr> \<and>
    (\<forall>q w'. fst (return_ctx (scenario_ctx\<lparr>quiz := Some q\<rparr>) (w' :: string world)) \<noteq>
       Inl \<lparr>code = BAD_REQUEST, message = ''Quiz missing''\<rparr>))"
  using
    quizStartProcedure_outcomes
      [of "scenario_world Map.empty" return_ctx scenario_ctx "''Q1''"
          "\<lparr>code = BAD_REQUEST, message = ''Quiz missing''\<rparr>"]
    quizStartProcedure_outcomes
      [of "scenario_world [''quizID'' \<mapsto> ''Q7'']" return_ctx scenario_ctx "''Q7''"
          "\<lparr>code = BAD_REQUEST, message = ''Quiz incorrect''\<rparr>"]
    quizStartProcedure_outcomes
      [of "scenario_world [''quizID'' \<mapsto> ''Q1'']" return_ctx scenario_ctx "''Q1''"
          "\<lparr>code = BAD_REQUEST, message = ''Quiz incorrect''\<rparr>"]
  by (simp add: scenario_world_def scenario_tables_def scenario_ctx_def quiz_Q1_def
      createTRPCContext_def createInnerTRPCContext_def return_ctx_def)



section \<open>Claims about the quiz procedure\<close>

text \<open>
  C1. For every call through the quiz procedure in which the value of the \<open>quizID\<close> cookie is
  the \<open>id\<close> of a stored Quiz row and the value of the \<open>entryID\<close> cookie is the \<open>id\<close> of a
  stored Entry row, the handler runs, on a context whose \<open>quiz\<close> is a stored Quiz row with
  that \<open>id\<close> and whose \<open>entry\<close> is a stored Entry row with that \<open>id\<close>. Where no other row of
  its table has the \<open>id\<close> of the row (the \<open>id\<close> identifies the row), the context holds these
  very rows; equality of records is equality field for field.
\<close>

theorem quizProcedure_resolves_both:
  assumes "cookieStore w ''quizID'' = Some (quiz_id q)"
    and "q \<in> set (Quizes (database w (db c)))"
    and "cookieStore w ''entryID'' = Some (entry_id e)"
    and "e \<in> set (Entries (database w (db c)))"
  shows "(\<exists>q' e'. q' \<in> set (Quizes (database w (db c))) \<and> quiz_id q' = quiz_id q \<and>
            e' \<in> set (Entries (database w (db c))) \<and> entry_id e' = entry_id e \<and>
            quizProcedure next c w =
              next (c\<lparr>quiz := Some q', entry := Some e'\<rparr>)
                (w\<lparr>events := events w @
                     [CookiesGet ''quizID'', Select QuizesT (quiz_id q),
                      CookiesGet ''entryID'', Select EntriesT (entry_id e)]\<rparr>)) \<and>
         ((\<forall>x\<in>set (Quizes (database w (db c))). quiz_id x = quiz_id q \<longrightarrow> x = q) \<and>
          (\<forall>y\<in>set (Entries (database w (db c))). entry_id y = entry_id e \<longrightarrow> y = e) \<longrightarrow>
            quizProcedure next c w =
              next (c\<lparr>quiz := Some q, entry := Some e\<rparr>)
                (w\<lparr>events := events w @
                     [CookiesGet ''quizID'', Select QuizesT (quiz_id q),
                      CookiesGet ''entryID'', Select EntriesT (entry_id e)]\<rparr>))"
proof -
  let ?w' = "w\<lparr>events := events w @
      [CookiesGet ''quizID'', Select QuizesT (quiz_id q),
       CookiesGet ''entryID'', Select EntriesT (entry_id e)]\<rparr>"
  from assms(2) obtain q' where
    q': "first_row (filter (\<lambda>x. quiz_id x = quiz_id q) (Quizes (database w (db c)))) = Some q'"
      "q' \<in> set (Quizes (database w (db c)))" "quiz_id q' = quiz_id q"
    using first_row_filter_exists [of q "Quizes (database w (db c))" "\<lambda>x. quiz_id x = quiz_id q"]
    by blast
  from assms(4) obtain e' where
    e': "first_row (filter (\<lambda>x. entry_id x = entry_id e) (Entries (database w (db c)))) = Some e'"
      "e' \<in> set (Entries (database w (db c)))" "entry_id e' = entry_id e"
    using first_row_filter_exists [of e "Entries (database w (db c))" "\<lambda>x. entry_id x = entry_id e"]
    by blast
  have run: "quizProcedure next c w = next (c\<lparr>quiz := Some q', entry := Some e'\<rparr>) ?w'"
    by (rule quizProcedure_entry_found [OF assms(1) q'(1) assms(3) e'(1)])
  have some: "\<exists>q' e'. q' \<in> set (Quizes (database w (db c))) \<and> quiz_id q' = quiz_id q \<and>
      e' \<in> set (Entries (database w (db c))) \<and> entry_id e' = entry_id e \<and>
      quizProcedure next c w = next (c\<lparr>quiz := Some q', entry := Some e'\<rparr>) ?w'"
    using run q'(2,3) e'(2,3) by blast
  have the: "quizProcedure next c w = next (c\<lparr>quiz := Some q, entry := Some e\<rparr>) ?w'"
    if "\<forall>x\<in>set (Quizes (database w (db c))). quiz_id x = quiz_id q \<longrightarrow> x = q"
      and "\<forall>y\<in>set (Entries (database w (db c))). entry_id y = entry_id e \<longrightarrow> y = e"
  proof -
    from that(1) q'(2,3) have "q' = q" by blast
    moreover from that(2) e'(2,3) have "e' = e" by blast
    ultimately show ?thesis using run by (simp only:)
  qed
  from some the show ?thesis by blast
qed

theorem quizProcedure_resolves_both_witness:
  "cookieStore (scenario_world [''quizID'' \<mapsto> ''Q1'', ''entryID'' \<mapsto> ''E1'']) ''quizID'' =
     Some (quiz_id quiz_Q1) \<and>
   quiz_Q1 \<in> set (Quizes (database
       (scenario_world [''quizID'' \<mapsto> ''Q1'', ''entryID'' \<mapsto> ''E1'']) (db scenario_ctx))) \<and>
   cookieStore (scenario_world [''quizID'' \<mapsto> ''Q1'', ''entryID'' \<mapsto> ''E1'']) ''entryID'' =
     Some (entry_id entry_E1) \<and>
   entry_E1 \<in> set (Entries (database
       (scenario_world [''quizID'' \<mapsto> ''Q1'', ''entryID'' \<mapsto> ''E1'']) (db scenario_ctx))) \<and>
   filter (\<lambda>x. quiz_id x = quiz_id quiz_Q1) (Quizes (database
       (scenario_world [''quizID'' \<mapsto> ''Q1'', ''entryID'' \<mapsto> ''E1'']) (db scenario_ctx))) =
     [quiz_Q1] \<and>
   filter (\<lambda>y. entry_id y = entry_id entry_E1) (Entries (database
       (scenario_world [''quizID'' \<mapsto> ''Q1'', ''entryID'' \<mapsto> ''E1'']) (db scenario_ctx))) =
     [entry_E1] \<and>
   quizProcedure return_ctx scenario_ctx
       (scenario_world [''quizID'' \<mapsto> ''Q1'', ''entryID'' \<mapsto> ''E1'']) =
     (Inr \<lparr>req = (), db = ''sqlite.db'',
           entry = Some \<lparr>entry_id = ''E1'', entry_name = ''Ada'', entry_quizID = ''Q1'',
                          entry_lastname = ''Lovelace'', entry_class = ''3a'', entry_score = 7\<rparr>,
           quiz = Some \<lparr>quiz_id = ''Q1'', quiz_name = ''Algebra''\<rparr>\<rparr>,
      \<lparr>cookieStore = [''quizID'' \<mapsto> ''Q1'', ''entryID'' \<mapsto> ''E1''],
       database = (\<lambda>_. scenario_tables),
       events = [CookiesGet ''quizID'', Select QuizesT ''Q1'',
                 CookiesGet ''entryID'', Select EntriesT ''E1'']\<rparr>)"
proof -
  let ?w = "scenario_world [''quizID'' \<mapsto> ''Q1'', ''entryID'' \<mapsto> ''E1'']"
  have h1: "cookieStore ?w ''quizID'' = Some (quiz_id quiz_Q1)"
    by (simp add: scenario_world_def quiz_Q1_def)
  have h2: "quiz_Q1 \<in> set (Quizes (database ?w (db scenario_ctx)))"
    by (simp add: scenario_world_def scenario_tables_def)
  have h3: "cookieStore ?w ''entryID'' = Some (entry_id entry_E1)"
    by (simp add: scenario_world_def entry_E1_def)
  have h4: "entry_E1 \<in> set (Entries (database ?w (db scenario_ctx)))"
    by (simp add: scenario_world_def scenario_tables_def)
  have u1: "\<forall>x\<in>set (Quizes (database ?w (db scenario_ctx))).
      quiz_id x = quiz_id quiz_Q1 \<longrightarrow> x = quiz_Q1"
    by (simp add: scenario_world_def scenario_tables_def)
  have u2: "\<forall>y\<in>set (Entries (database ?w (db scenario_ctx))).
      entry_id y = entry_id entry_E1 \<longrightarrow> y = entry_E1"
    by (simp add: scenario_world_def scenario_tables_def entry_E1_def entry_E2_def)
  from quizProcedure_resolves_both [OF h1 h2 h3 h4, of return_ctx] u1 u2
  have "quizProcedure return_ctx scenario_ctx ?w =
      return_ctx (scenario_ctx\<lparr>quiz := Some quiz_Q1, entry := Some entry_E1\<rparr>)
        (?w\<lparr>events := events ?w @
            [CookiesGet ''quizID'', Select QuizesT (quiz_id quiz_Q1),
             CookiesGet ''entryID'', Select EntriesT (entry_id entry_E1)]\<rparr>)"
    by blast
  then have "quizProcedure return_ctx scenario_ctx ?w =
      (Inr \<lparr>req = (), db = ''sqlite.db'',
            entry = Some \<lparr>entry_id = ''E1'', entry_name = ''Ada'', entry_quizID = ''Q1'',
                           entry_lastname = ''Lovelace'', entry_class = ''3a'', entry_score = 7\<rparr>,
            quiz = Some \<lparr>quiz_id = ''Q1'', quiz_name = ''Algebra''\<rparr>\<rparr>,
       \<lparr>cookieStore = [''quizID'' \<mapsto> ''Q1'', ''entryID'' \<mapsto> ''E1''],
        database = (\<lambda>_. scenario_tables),
        events = [CookiesGet ''quizID'', Select QuizesT ''Q1'',
                  CookiesGet ''entryID'', Select EntriesT ''E1'']\<rparr>)"
    by (simp add: return_ctx_def scenario_world_def scenario_ctx_def quiz_Q1_def entry_E1_def
        createTRPCContext_def createInnerTRPCContext_def)
  moreover have "filter (\<lambda>x. quiz_id x = quiz_id quiz_Q1)
      (Quizes (database ?w (db scenario_ctx))) = [quiz_Q1]"
    by (simp add: scenario_world_def scenario_tables_def)
  moreover have "filter (\<lambda>y. entry_id y = entry_id entry_E1)
      (Entries (database ?w (db scenario_ctx))) = [entry_E1]"
    by (simp add: scenario_world_def scenario_tables_def entry_E1_def entry_E2_def)
  ultimately show ?thesis using h1 h2 h3 h4 by blast
qed

text \<open>
  C3. For every call through the quiz procedure whose \<open>quizID\<close> cookie names a stored Quiz:
  if the \<open>entryID\<close> cookie is present and its value is the \<open>id\<close> of no stored Entry, the
  result is \<open>BAD_REQUEST\<close> with the message ``Quiz incorrect'' (the message of the quiz
  step, word for word); if the \<open>entryID\<close> cookie is absent, the result is \<open>BAD_REQUEST\<close> with
  the message ``Entry missing''.
\<close>

theorem quizProcedure_entry_failures:
  "(cookieStore w ''quizID'' = Some qv \<and>
    qv \<in> quiz_id ` set (Quizes (database w (db c))) \<and>
    cookieStore w ''entryID'' = Some ev \<and>
    ev \<notin> entry_id ` set (Entries (database w (db c))) \<longrightarrow>
      quizProcedure next c w =
        (Inl \<lparr>code = BAD_REQUEST, message = ''Quiz incorrect''\<rparr>,
         w\<lparr>events := events w @ [CookiesGet ''quizID'', Select QuizesT qv,
                                 CookiesGet ''entryID'', Select EntriesT ev]\<rparr>)) \<and>
   (cookieStore w ''quizID'' = Some qv \<and>
    qv \<in> quiz_id ` set (Quizes (database w (db c))) \<and>
    cookieStore w ''entryID'' = None \<longrightarrow>
      quizProcedure next c w =
        (Inl \<lparr>code = BAD_REQUEST, message = ''Entry missing''\<rparr>,
         w\<lparr>events := events w @ [CookiesGet ''quizID'', Select QuizesT qv,
                                 CookiesGet ''entryID'']\<rparr>))"
proof (intro conjI impI)
  assume a: "cookieStore w ''quizID'' = Some qv \<and>
    qv \<in> quiz_id ` set (Quizes (database w (db c))) \<and>
    cookieStore w ''entryID'' = Some ev \<and>
    ev \<notin> entry_id ` set (Entries (database w (db c)))"
  then obtain q where
    q: "first_row (filter (\<lambda>x. quiz_id x = qv) (Quizes (database w (db c)))) = Some q"
    using some_row_with_id [of qv quiz_id "Quizes (database w (db c))"] by blast
  from a have n: "first_row (filter (\<lambda>x. entry_id x = ev) (Entries (database w (db c)))) = None"
    using no_row_with_id [of ev entry_id "Entries (database w (db c))"] by blast
  from a have "cookieStore w ''quizID'' = Some qv" and "cookieStore w ''entryID'' = Some ev"
    by blast+
  then show "quizProcedure next c w =
      (Inl \<lparr>code = BAD_REQUEST, message = ''Quiz incorrect''\<rparr>,
       w\<lparr>events := events w @ [CookiesGet ''quizID'', Select QuizesT qv,
                               CookiesGet ''entryID'', Select EntriesT ev]\<rparr>)"
    using q n by (simp only: quizProcedure_entry_incorrect)
next
  assume a: "cookieStore w ''quizID'' = Some qv \<and>
    qv \<in> quiz_id ` set (Quizes (database w (db c))) \<and>
    cookieStore w ''entryID'' = None"
  then obtain q where
    q: "first_row (filter (\<lambda>x. quiz_id x = qv) (Quizes (database w (db c)))) = Some q"
    using some_row_with_id [of qv quiz_id "Quizes (database w (db c))"] by blast
  from a have "cookieStore w ''quizID'' = Some qv" and "cookieStore w ''entryID'' = None"
    by blast+
  then show "quizProcedure next c w =
      (Inl \<lparr>code = BAD_REQUEST, message = ''Entry missing''\<rparr>,
       w\<lparr>events := events w @ [CookiesGet ''quizID'', Select QuizesT qv,
                               CookiesGet ''entryID'']\<rparr>)"
    using q by (simp only: quizProcedure_entry_missing)
qed

theorem quizProcedure_entry_failures_witness:
  "(cookieStore (scenario_world [''quizID'' \<mapsto> ''Q1'', ''entryID'' \<mapsto> ''E9'']) ''quizID'' =
      Some ''Q1'' \<and>
    ''Q1'' \<in> quiz_id ` set (Quizes (database
        (scenario_world [''quizID'' \<mapsto> ''Q1'', ''entryID'' \<mapsto> ''E9'']) (db scenario_ctx))) \<and>
    cookieStore (scenario_world [''quizID'' \<mapsto> ''Q1'', ''entryID'' \<mapsto> ''E9'']) ''entryID'' =
      Some ''E9'' \<and>
    ''E9'' \<notin> entry_id ` set (Entries (database
        (scenario_world [''quizID'' \<mapsto> ''Q1'', ''entryID'' \<mapsto> ''E9'']) (db scenario_ctx))) \<and>
    fst (quizProcedure return_ctx scenario_ctx
           (scenario_world [''quizID'' \<mapsto> ''Q1'', ''entryID'' \<mapsto> ''E9''])) =
      Inl \<lparr>code = BAD_REQUEST, message = ''Quiz incorrect''\<rparr>) \<and>
   (cookieStore (scenario_world [''quizID'' \<mapsto> ''Q1'']) ''quizID'' = Some ''Q1'' \<and>
    ''Q1'' \<in> quiz_id ` set (Quizes (database
        (scenario_world [''quizID'' \<mapsto> ''Q1'']) (db scenario_ctx))) \<and>
    cookieStore (scenario_world [''quizID'' \<mapsto> ''Q1'']) ''entryID'' = None \<and>
    fst (quizProcedure return_ctx scenario_ctx (scenario_world [''quizID'' \<mapsto> ''Q1''])) =
      Inl \<lparr>code = BAD_REQUEST, message = ''Entry missing''\<rparr>)"
  using
    quizProcedure_entry_failures
      [of "scenario_world [''quizID'' \<mapsto> ''Q1'', ''entryID'' \<mapsto> ''E9'']" "''Q1''"
          scenario_ctx "''E9''" return_ctx]
    quizProcedure_entry_failures
      [of "scenario_world [''quizID'' \<mapsto> ''Q1'']" "''Q1''" scenario_ctx "''E9''" return_ctx]
  by (simp add: scenario_world_def scenario_tables_def scenario_ctx_def quiz_Q1_def
      entry_E1_def entry_E2_def createTRPCContext_def createInnerTRPCContext_def)

text \<open>
  C7. When a step of a chain fails, no later step runs. For \<open>use\<close>: if the procedure fails
  at a context and a world whatever comes after it, then so does the procedure extended by
  a further middleware, with the same error and the same world. For the quiz procedure: if
  the \<open>quizID\<close> cookie is absent, or its value is the \<open>id\<close> of no stored Quiz, the call ends
  in the error of the quiz step, exactly as the quizStart procedure does on its own; the
  effects recorded are the read of the \<open>quizID\<close> cookie and, if it was there, the one query
  on \<open>Quizes\<close>: the \<open>entryID\<close> cookie is not read and \<open>Entries\<close> is not queried.
\<close>

theorem quizProcedure_stops_at_quiz_failure:
  "((\<forall>k. p k c w = (Inl err, w')) \<longrightarrow> use p m next c w = (Inl err, w')) \<and>
   (cookieStore w ''quizID'' = None \<longrightarrow>
      quizProcedure next c w =
        (Inl \<lparr>code = BAD_REQUEST, message = ''Quiz missing''\<rparr>,
         w\<lparr>events := events w @ [CookiesGet ''quizID'']\<rparr>) \<and>
      quizProcedure next c w = quizStartProcedure next' c w) \<and>
   (cookieStore w ''quizID'' = Some v \<and> v \<notin> quiz_id ` set (Quizes (database w (db c))) \<longrightarrow>
      quizProcedure next c w =
        (Inl \<lparr>code = BAD_REQUEST, message = ''Quiz incorrect''\<rparr>,
         w\<lparr>events := events w @ [CookiesGet ''quizID'', Select QuizesT v]\<rparr>) \<and>
      quizProcedure next c w = quizStartProcedure next' c w)"
proof (intro conjI impI)
  assume "\<forall>k. p k c w = (Inl err, w')"
  then show "use p m next c w = (Inl err, w')"
    by (simp only: use_def)
next
  assume a: "cookieStore w ''quizID'' = None"
  then show "quizProcedure next c w =
      (Inl \<lparr>code = BAD_REQUEST, message = ''Quiz missing''\<rparr>,
       w\<lparr>events := events w @ [CookiesGet ''quizID'']\<rparr>)"
    unfolding quizProcedure_eq by (rule quizStart_middleware_missing)
  from a show "quizProcedure next c w = quizStartProcedure next' c w"
    by (simp only: quizProcedure_eq quizStartProcedure_eq quizStart_middleware_missing)
next
  assume a: "cookieStore w ''quizID'' = Some v \<and>
    v \<notin> quiz_id ` set (Quizes (database w (db c)))"
  then have h: "cookieStore w ''quizID'' = Some v"
    "first_row (filter (\<lambda>x. quiz_id x = v) (Quizes (database w (db c)))) = None"
    by (simp_all add: no_row_with_id)
  then show "quizProcedure next c w =
      (Inl \<lparr>code = BAD_REQUEST, message = ''Quiz incorrect''\<rparr>,
       w\<lparr>events := events w @ [CookiesGet ''quizID'', Select QuizesT v]\<rparr>)"
    unfolding quizProcedure_eq by (rule quizStart_middleware_incorrect)
  from h show "quizProcedure next c w = quizStartProcedure next' c w"
    by (simp only: quizProcedure_eq quizStartProcedure_eq
        quizStart_middleware_incorrect [OF h])
qed

theorem quizProcedure_stops_at_quiz_failure_witness:
  "((\<forall>k. quizStartProcedure k scenario_ctx (scenario_world [''entryID'' \<mapsto> ''E1'']) =
        (Inl \<lparr>code = BAD_REQUEST, message = ''Quiz missing''\<rparr>,
         (scenario_world [''entryID'' \<mapsto> ''E1''])\<lparr>events := [CookiesGet ''quizID'']\<rparr>)) \<and>
    use quizStartProcedure quiz_middleware return_ctx scenario_ctx
        (scenario_world [''entryID'' \<mapsto> ''E1'']) =
      (Inl \<lparr>code = BAD_REQUEST, message = ''Quiz missing''\<rparr>,
       (scenario_world [''entryID'' \<mapsto> ''E1''])\<lparr>events := [CookiesGet ''quizID'']\<rparr>)) \<and>
   (cookieStore (scenario_world [''entryID'' \<mapsto> ''E1'']) ''quizID'' = None \<and>
    quizProcedure return_ctx scenario_ctx (scenario_world [''entryID'' \<mapsto> ''E1'']) =
      (Inl \<lparr>code = BAD_REQUEST, message = ''Quiz missing''\<rparr>,
       (scenario_world [''entryID'' \<mapsto> ''E1''])\<lparr>events := [CookiesGet ''quizID'']\<rparr>)) \<and>
   (cookieStore (scenario_world [''quizID'' \<mapsto> ''Q7'', ''entryID'' \<mapsto> ''E1'']) ''quizID'' =
      Some ''Q7'' \<and>
    ''Q7'' \<notin> quiz_id ` set (Quizes (database
        (scenario_world [''quizID'' \<mapsto> ''Q7'', ''entryID'' \<mapsto> ''E1'']) (db scenario_ctx))) \<and>
    quizProcedure return_ctx scenario_ctx
        (scenario_world [''quizID'' \<mapsto> ''Q7'', ''entryID'' \<mapsto> ''E1'']) =
      (Inl \<lparr>code = BAD_REQUEST, message = ''Quiz incorrect''\<rparr>,
       (scenario_world [''quizID'' \<mapsto> ''Q7'', ''entryID'' \<mapsto> ''E1''])
         \<lparr>events := [CookiesGet ''quizID'', Select QuizesT ''Q7'']\<rparr>))"
proof -
  let ?w0 = "scenario_world [''entryID'' \<mapsto> ''E1'']"
  let ?w7 = "scenario_world [''quizID'' \<mapsto> ''Q7'', ''entryID'' \<mapsto> ''E1'']"
  let ?missing = "\<lparr>code = BAD_REQUEST, message = ''Quiz missing''\<rparr>"
  have h0: "cookieStore ?w0 ''quizID'' = None"
    by (simp add: scenario_world_def)
  have e0: "events ?w0 = []"
    by (simp add: scenario_world_def)
  have hk: "\<forall>k. quizStartProcedure k scenario_ctx ?w0 =
      (Inl ?missing, ?w0\<lparr>events := [CookiesGet ''quizID'']\<rparr>)"
    by (simp add: quizStartProcedure_eq quizStart_middleware_missing [OF h0] e0)
  have h7: "cookieStore ?w7 ''quizID'' = Some ''Q7'' \<and>
      ''Q7'' \<notin> quiz_id ` set (Quizes (database ?w7 (db scenario_ctx)))"
    by (simp add: scenario_world_def scenario_tables_def quiz_Q1_def)
  have e7: "events ?w7 = []"
    by (simp add: scenario_world_def)
  from quizProcedure_stops_at_quiz_failure
         [of quizStartProcedure scenario_ctx ?w0 ?missing
             "?w0\<lparr>events := [CookiesGet ''quizID'']\<rparr>" quiz_middleware return_ctx return_ctx
             "''Q7''"]
       quizProcedure_stops_at_quiz_failure
         [of quizStartProcedure scenario_ctx ?w7 ?missing
             "?w0\<lparr>events := [CookiesGet ''quizID'']\<rparr>" quiz_middleware return_ctx return_ctx
             "''Q7''"]
       hk h0 h7
  show ?thesis by (simp add: hk h0 h7 e0 e7)
qed

text \<open>
  C6. The quiz procedure finds the Entry by the value of the \<open>entryID\<close> cookie alone and does
  not compare its \<open>quizID\<close> with the \<open>id\<close> of the Quiz it resolved: there is a store with a
  Quiz and an Entry of another quiz such that every call with the cookies of these two rows,
  from whatever context and with whatever handler, reads the two cookies, makes the two
  queries and runs the handler on the context with this Quiz and this Entry put in: a
  context whose \<open>entry.quizID\<close> differs from its \<open>quiz.id\<close>.
\<close>

theorem quizProcedure_ignores_entry_quizID:
  "\<exists>(w :: string world) q e.
     entry_quizID e \<noteq> quiz_id q \<and>
     cookieStore w ''quizID'' = Some (quiz_id q) \<and>
     cookieStore w ''entryID'' = Some (entry_id e) \<and>
     (\<forall>(c :: ('req, string) ctx) (next :: ('req, string, 'a) handler).
        q \<in> set (Quizes (database w (db c))) \<and>
        e \<in> set (Entries (database w (db c))) \<and>
        quizProcedure next c w =
          next (c\<lparr>quiz := Some q, entry := Some e\<rparr>)
            (w\<lparr>events := events w @
                 [CookiesGet ''quizID'', Select QuizesT (quiz_id q),
                  CookiesGet ''entryID'', Select EntriesT (entry_id e)]\<rparr>))"
proof -
  let ?w = "scenario_world [''quizID'' \<mapsto> ''Q1'', ''entryID'' \<mapsto> ''E2'']"
  have ids: "quiz_id quiz_Q1 = ''Q1''" "entry_id entry_E2 = ''E2''"
    by (simp_all add: quiz_Q1_def entry_E2_def)
  have differ: "entry_quizID entry_E2 \<noteq> quiz_id quiz_Q1"
    by (simp add: quiz_Q1_def entry_E2_def)
  have h1: "cookieStore ?w ''quizID'' = Some (quiz_id quiz_Q1)"
    by (simp add: scenario_world_def ids)
  have h3: "cookieStore ?w ''entryID'' = Some (entry_id entry_E2)"
    by (simp add: scenario_world_def ids)
  have h2: "first_row (filter (\<lambda>x. quiz_id x = quiz_id quiz_Q1)
      (Quizes (database ?w (db c)))) = Some quiz_Q1"
    for c :: "('req, string) ctx"
    by (simp add: scenario_world_def scenario_tables_def first_row_def)
  have h4: "first_row (filter (\<lambda>x. entry_id x = entry_id entry_E2)
      (Entries (database ?w (db c)))) = Some entry_E2"
    for c :: "('req, string) ctx"
    by (simp add: scenario_world_def scenario_tables_def entry_E1_def entry_E2_def
        first_row_def)
  have rows: "quiz_Q1 \<in> set (Quizes (database ?w (db c))) \<and>
      entry_E2 \<in> set (Entries (database ?w (db c)))"
    for c :: "('req, string) ctx"
    by (simp add: scenario_world_def scenario_tables_def)
  have run: "quizProcedure k c ?w =
      k (c\<lparr>quiz := Some quiz_Q1, entry := Some entry_E2\<rparr>)
        (?w\<lparr>events := events ?w @
             [CookiesGet ''quizID'', Select QuizesT (quiz_id quiz_Q1),
              CookiesGet ''entryID'', Select EntriesT (entry_id entry_E2)]\<rparr>)"
    for c :: "('req, string) ctx" and k :: "('req, string, 'a) handler"
    by (rule quizProcedure_entry_found [OF h1 h2 h3 h4])
  from differ h1 h3 rows run show ?thesis
    by (intro exI [of _ ?w] exI [of _ quiz_Q1] exI [of _ entry_E2]) blast
qed

section \<open>Cookies with an empty value\<close>

text \<open>
  C10. A cookie that is present with the empty string as its value counts as present. A
  quizStart call with such a \<open>quizID\<close> cookie queries \<open>Quizes\<close> for the \<open>id\<close> \<open>''''\<close> and, no row
  having it, fails with \<open>BAD_REQUEST\<close> and ``Quiz incorrect'', not with ``Quiz missing''. A
  quiz call with a resolvable \<open>quizID\<close> cookie and such an \<open>entryID\<close> cookie queries \<open>Entries\<close>
  for \<open>''''\<close> and, no row having it, fails with ``Quiz incorrect'', not with ``Entry missing''.
\<close>

theorem empty_cookie_value_is_present:
  "(cookieStore w ''quizID'' = Some [] \<and>
    [] \<notin> quiz_id ` set (Quizes (database w (db c))) \<longrightarrow>
      quizStartProcedure next c w =
        (Inl \<lparr>code = BAD_REQUEST, message = ''Quiz incorrect''\<rparr>,
         w\<lparr>events := events w @ [CookiesGet ''quizID'', Select QuizesT []]\<rparr>) \<and>
      fst (quizStartProcedure next c w) \<noteq>
        Inl \<lparr>code = BAD_REQUEST, message = ''Quiz missing''\<rparr>) \<and>
   (cookieStore w ''quizID'' = Some qv \<and>
    qv \<in> quiz_id ` set (Quizes (database w (db c))) \<and>
    cookieStore w ''entryID'' = Some [] \<and>
    [] \<notin> entry_id ` set (Entries (database w (db c))) \<longrightarrow>
      quizProcedure next c w =
        (Inl \<lparr>code = BAD_REQUEST, message = ''Quiz incorrect''\<rparr>,
         w\<lparr>events := events w @ [CookiesGet ''quizID'', Select QuizesT qv,
                                 CookiesGet ''entryID'', Select EntriesT []]\<rparr>) \<and>
      fst (quizProcedure next c w) \<noteq>
        Inl \<lparr>code = BAD_REQUEST, message = ''Entry missing''\<rparr>)"
proof (intro conjI impI)
  assume a: "cookieStore w ''quizID'' = Some [] \<and>
    [] \<notin> quiz_id ` set (Quizes (database w (db c)))"
  then have h: "cookieStore w ''quizID'' = Some []"
    "first_row (filter (\<lambda>x. quiz_id x = []) (Quizes (database w (db c)))) = None"
    by (simp_all add: no_row_with_id)
  then show r: "quizStartProcedure next c w =
      (Inl \<lparr>code = BAD_REQUEST, message = ''Quiz incorrect''\<rparr>,
       w\<lparr>events := events w @ [CookiesGet ''quizID'', Select QuizesT []]\<rparr>)"
    unfolding quizStartProcedure_eq by (rule quizStart_middleware_incorrect)
  show "fst (quizStartProcedure next c w) \<noteq>
      Inl \<lparr>code = BAD_REQUEST, message = ''Quiz missing''\<rparr>"
    by (simp add: r)
next
  assume a: "cookieStore w ''quizID'' = Some qv \<and>
    qv \<in> quiz_id ` set (Quizes (database w (db c))) \<and>
    cookieStore w ''entryID'' = Some [] \<and>
    [] \<notin> entry_id ` set (Entries (database w (db c)))"
  then obtain q where
    q: "first_row (filter (\<lambda>x. quiz_id x = qv) (Quizes (database w (db c)))) = Some q"
    using some_row_with_id [of qv quiz_id "Quizes (database w (db c))"] by blast
  from a have h: "cookieStore w ''quizID'' = Some qv" "cookieStore w ''entryID'' = Some []"
    "first_row (filter (\<lambda>x. entry_id x = []) (Entries (database w (db c)))) = None"
    by (simp_all add: no_row_with_id)
  show r: "quizProcedure next c w =
      (Inl \<lparr>code = BAD_REQUEST, message = ''Quiz incorrect''\<rparr>,
       w\<lparr>events := events w @ [CookiesGet ''quizID'', Select QuizesT qv,
                               CookiesGet ''entryID'', Select EntriesT []]\<rparr>)"
    by (rule quizProcedure_entry_incorrect [OF h(1) q h(2,3)])
  show "fst (quizProcedure next c w) \<noteq>
      Inl \<lparr>code = BAD_REQUEST, message = ''Entry missing''\<rparr>"
    by (simp add: r)
qed

theorem empty_cookie_value_is_present_witness:
  "(cookieStore (scenario_world [''quizID'' \<mapsto> []]) ''quizID'' = Some [] \<and>
    [] \<notin> quiz_id ` set (Quizes (database (scenario_world [''quizID'' \<mapsto> []])
                                   (db scenario_ctx))) \<and>
    quizStartProcedure return_ctx scenario_ctx (scenario_world [''quizID'' \<mapsto> []]) =
      (Inl \<lparr>code = BAD_REQUEST, message = ''Quiz incorrect''\<rparr>,
       \<lparr>cookieStore = [''quizID'' \<mapsto> []], database = (\<lambda>_. scenario_tables),
        events = [CookiesGet ''quizID'', Select QuizesT []]\<rparr>)) \<and>
   (cookieStore (scenario_world [''quizID'' \<mapsto> ''Q1'', ''entryID'' \<mapsto> []]) ''quizID'' =
      Some ''Q1'' \<and>
    ''Q1'' \<in> quiz_id ` set (Quizes (database
        (scenario_world [''quizID'' \<mapsto> ''Q1'', ''entryID'' \<mapsto> []]) (db scenario_ctx))) \<and>
    cookieStore (scenario_world [''quizID'' \<mapsto> ''Q1'', ''entryID'' \<mapsto> []]) ''entryID'' =
      Some [] \<and>
    [] \<notin> entry_id ` set (Entries (database
        (scenario_world [''quizID'' \<mapsto> ''Q1'', ''entryID'' \<mapsto> []]) (db scenario_ctx))) \<and>
    quizProcedure return_ctx scenario_ctx
        (scenario_world [''quizID'' \<mapsto> ''Q1'', ''entryID'' \<mapsto> []]) =
      (Inl \<lparr>code = BAD_REQUEST, message = ''Quiz incorrect''\<rparr>,
       \<lparr>cookieStore = [''quizID'' \<mapsto> ''Q1'', ''entryID'' \<mapsto> []],
        database = (\<lambda>_. scenario_tables),
        events = [CookiesGet ''quizID'', Select QuizesT ''Q1'',
                  CookiesGet ''entryID'', Select EntriesT []]\<rparr>))"
  using
    empty_cookie_value_is_present
      [of "scenario_world [''quizID'' \<mapsto> []]" scenario_ctx return_ctx "''Q1''"]
    empty_cookie_value_is_present
      [of "scenario_world [''quizID'' \<mapsto> ''Q1'', ''entryID'' \<mapsto> []]" scenario_ctx
          return_ctx "''Q1''"]
  by (simp add: scenario_world_def scenario_tables_def scenario_ctx_def quiz_Q1_def
      entry_E1_def entry_E2_def createTRPCContext_def createInnerTRPCContext_def)

end
